theory Spec2Isabelle
  imports Main "HOL-Library.AList"
begin

section \<open>The iLO inspect interface (ironic/drivers/modules/ilo/inspect.py)\<close>

text \<open>
  A shallow embedding of the module. Values that come from the management controller are
  untyped in the source, so they are values of \<open>pyval\<close>; a dictionary is an association
  list with string keys, in insertion order, updated with \<open>AList.update\<close> (replace in
  place, else append, as a Python dictionary does). Every raise of the source is an
  \<open>Inl\<close> of the result.
\<close>

subsection \<open>Python values\<close>

datatype pyval =
    PNone
  | PBool bool
  | PInt int
  | PStr string
  | PList "pyval list"
  | PDict "(string \<times> pyval) list"

type_synonym pydict = "(string \<times> pyval) list"

text \<open>Truth value testing, as \<open>if x:\<close> does it.\<close>

fun py_truthy :: "pyval \<Rightarrow> bool" where
  "py_truthy PNone = False"
| "py_truthy (PBool b) = b"
| "py_truthy (PInt i) = (i \<noteq> 0)"
| "py_truthy (PStr s) = (s \<noteq> [])"
| "py_truthy (PList xs) = (xs \<noteq> [])"
| "py_truthy (PDict kvs) = (kvs \<noteq> [])"

text \<open>\<open>d.get(k)\<close>: the value, or \<open>None\<close>.\<close>

definition py_get :: "pydict \<Rightarrow> string \<Rightarrow> pyval" where
  "py_get d k = (case map_of d k of None \<Rightarrow> PNone | Some v \<Rightarrow> v)"

fun isinstance_dict :: "pyval \<Rightarrow> bool" where
  "isinstance_dict (PDict kvs) = True"
| "isinstance_dict v = False"

subsection \<open>Strings\<close>

text \<open>\<open>sep.join(xs)\<close>.\<close>

fun join :: "string \<Rightarrow> string list \<Rightarrow> string" where
  "join sep [] = []"
| "join sep [x] = x"
| "join sep (x # y # ys) = x @ sep @ join sep (y # ys)"

text \<open>\<open>s.split(c)\<close> for a one-character separator: always at least one piece.\<close>

fun split_on :: "char \<Rightarrow> string \<Rightarrow> string list" where
  "split_on c [] = [[]]"
| "split_on c (x # xs) =
     (if x = c then [] # split_on c xs
      else (case split_on c xs of
              [] \<Rightarrow> [[x]]
            | t # ts \<Rightarrow> (x # t) # ts))"

text \<open>\<open>s.split(c, 1)\<close>: one piece when \<open>c\<close> does not occur, else the text before the
  first \<open>c\<close> and the text after it.\<close>

definition split_first :: "char \<Rightarrow> string \<Rightarrow> string list" where
  "split_first c s =
     (if c \<in> set s then [takeWhile (\<lambda>x. x \<noteq> c) s, tl (dropWhile (\<lambda>x. x \<noteq> c) s)]
      else [s])"

text \<open>\<open>s.lower()\<close> and \<open>s.isdigit()\<close> on ASCII text.\<close>

definition lower_char :: "char \<Rightarrow> char" where
  "lower_char c =
     (case map_of (zip ''ABCDEFGHIJKLMNOPQRSTUVWXYZ'' ''abcdefghijklmnopqrstuvwxyz'') c of
        None \<Rightarrow> c
      | Some l \<Rightarrow> l)"

definition lower :: "string \<Rightarrow> string" where
  "lower s = map lower_char s"

definition is_digit_char :: "char \<Rightarrow> bool" where
  "is_digit_char c = (c \<in> set ''0123456789'')"

definition isdigit :: "string \<Rightarrow> bool" where
  "isdigit s = (s \<noteq> [] \<and> list_all is_digit_char s)"

text \<open>Decimal text of an integer, for \<open>str\<close>.\<close>

fun digit_char :: "nat \<Rightarrow> char" where
  "digit_char n = ''0123456789'' ! (n mod 10)"

function str_nat :: "nat \<Rightarrow> string" where
  "str_nat n = (if n < 10 then [digit_char n] else str_nat (n div 10) @ [digit_char n])"
  by pat_completeness auto
termination
  by (relation "measure id") auto

declare str_nat.simps [simp del]

definition str_int :: "int \<Rightarrow> string" where
  "str_int i = (if i < 0 then CHR ''-'' # str_nat (nat (- i)) else str_nat (nat i))"

text \<open>
  \<open>str(v)\<close>, which the \<open>%s\<close> conversion applies. A string is itself; a container is
  written with \<open>repr\<close> of its parts, for which the quoting of a string is the plain
  single-quoted form (text without quotes, backslashes or control characters).
\<close>

fun py_repr :: "pyval \<Rightarrow> string" where
  "py_repr PNone = ''None''"
| "py_repr (PBool b) = (if b then ''True'' else ''False'')"
| "py_repr (PInt i) = str_int i"
| "py_repr (PStr s) = [CHR 0x27] @ s @ [CHR 0x27]"
| "py_repr (PList xs) = ''['' @ join '', '' (map py_repr xs) @ '']''"
| "py_repr (PDict kvs) =
     ''{'' @ join '', '' (map (\<lambda>(k, v). [CHR 0x27] @ k @ [CHR 0x27] @ '': '' @ py_repr v) kvs)
     @ ''}''"

fun py_str :: "pyval \<Rightarrow> string" where
  "py_str (PStr s) = s"
| "py_str v = py_repr v"

subsection \<open>Exceptions and messages\<close>

text \<open>
  A message is a template with the arguments of its \<open>%\<close> operation; \<open>_\<close> (the
  translation marker) returns its argument.
\<close>

datatype message = Message string pydict

datatype error =
    IloError string
  | IloOperationError message cause
  | HardwareInspectionFailure cause
  | InvalidParameterValue message
  | MissingParameterValue message
  | MACAlreadyExists
  | ValueError
  | KeyError
  | TypeError
  | AttributeError
  | OtherError string
and cause = Text message | Exception error

text \<open>
  The \<open>%\<close> operator on a template. The scanner reads the template left to right:
  \<open>%(key)c\<close> is a directive that takes \<open>key\<close> from the mapping, \<open>%c\<close> one that takes
  the next positional argument, \<open>%%\<close> a literal percent sign. The templates of this
  module use the conversion \<open>s\<close> only, with no flags, width or precision, so the
  conversion character follows the key at once; a character that is no conversion type
  raises \<open>ValueError\<close> (unsupported format character), as does a template that ends
  inside a directive.
\<close>

datatype directive = Keyed string char | Plain char

datatype scan_state = Normal | Percent | InKey string | AfterKey string

fun emit :: "directive \<Rightarrow> error + directive list \<Rightarrow> error + directive list" where
  "emit d (Inl e) = Inl e"
| "emit d (Inr ds) = Inr (d # ds)"

definition conversion_types :: string where
  "conversion_types = ''diouxXeEfFgGcrsa%''"

fun scan_format :: "scan_state \<Rightarrow> string \<Rightarrow> error + directive list" where
  "scan_format Normal [] = Inr []"
| "scan_format Percent [] = Inl ValueError"
| "scan_format (InKey k) [] = Inl ValueError"
| "scan_format (AfterKey k) [] = Inl ValueError"
| "scan_format Normal (c # cs) =
     (if c = CHR ''%'' then scan_format Percent cs else scan_format Normal cs)"
| "scan_format Percent (c # cs) =
     (if c = CHR ''('' then scan_format (InKey []) cs
      else if c \<in> set conversion_types then emit (Plain c) (scan_format Normal cs)
      else Inl ValueError)"
| "scan_format (InKey k) (c # cs) =
     (if c = CHR '')'' then scan_format (AfterKey k) cs else scan_format (InKey (k @ [c])) cs)"
| "scan_format (AfterKey k) (c # cs) =
     (if c \<in> set conversion_types then emit (Keyed k c) (scan_format Normal cs)
      else Inl ValueError)"

text \<open>
  \<open>template % mapping\<close>: every keyed directive needs its key in the mapping
  (\<open>KeyError\<close> otherwise). \<open>template % value\<close> with one value that is no mapping: a
  keyed directive raises \<open>TypeError\<close> (format requires a mapping), and so does a number
  of positional directives other than one.
\<close>

fun directive_keys :: "directive list \<Rightarrow> string list" where
  "directive_keys [] = []"
| "directive_keys (Keyed k c # ds) = k # directive_keys ds"
| "directive_keys (Plain c # ds) = directive_keys ds"

fun positional :: "directive list \<Rightarrow> nat" where
  "positional [] = 0"
| "positional (Keyed k c # ds) = positional ds"
| "positional (Plain c # ds) = (if c = CHR ''%'' then 0 else 1) + positional ds"

definition py_mod :: "string \<Rightarrow> pydict \<Rightarrow> error + message" where
  "py_mod template args =
     (case scan_format Normal template of
        Inl e \<Rightarrow> Inl e
      | Inr ds \<Rightarrow>
          if list_all (\<lambda>k. k \<in> set (map fst args)) (directive_keys ds)
          then (if positional ds \<le> 1 then Inr (Message template args) else Inl TypeError)
          else Inl KeyError)"

definition py_mod1 :: "string \<Rightarrow> pyval \<Rightarrow> error + message" where
  "py_mod1 template arg =
     (case scan_format Normal template of
        Inl e \<Rightarrow> Inl e
      | Inr ds \<Rightarrow>
          if directive_keys ds = [] \<and> positional ds = 1
          then Inr (Message template [([], arg)])
          else Inl TypeError)"

subsection \<open>The node\<close>

record node =
  node_id :: nat
  uuid :: string
  properties :: pydict
  driver_info :: "(string \<times> string) list"

subsection \<open>Module constants\<close>

text \<open>The two key sets, in the order the source writes them (a set has no order of
  its own; the model iterates them in this one).\<close>

definition ESSENTIAL_PROPERTIES_KEYS :: "string list" where
  "ESSENTIAL_PROPERTIES_KEYS = [''memory_mb'', ''local_gb'', ''cpus'', ''cpu_arch'']"

definition CAPABILITIES_KEYS :: "string list" where
  "CAPABILITIES_KEYS =
     [''BootMode'', ''secure_boot'', ''rom_firmware_version'',
      ''ilo_firmware_version'', ''server_model'', ''max_raid_level'',
      ''pci_gpu_devices'', ''sr_iov_devices'', ''nic_capacity'']"

text \<open>\<open>raise Exc(template % args)\<close>: the \<open>%\<close> is evaluated first, and its own
  exception wins.\<close>

fun raise_with :: "(message \<Rightarrow> error) \<Rightarrow> error + message \<Rightarrow> error + 'a" where
  "raise_with mk (Inl e) = Inl e"
| "raise_with mk (Inr m) = Inl (mk m)"

definition failure :: "message \<Rightarrow> error" where
  "failure m = HardwareInspectionFailure (Text m)"

subsection \<open>\<open>_validate\<close>\<close>

definition missing_keys_template :: string where
  "missing_keys_template = ''Server didn't return the key(s): %(key)s''"

definition properties_format_template :: string where
  "properties_format_template =
     ''Essential properties are expected to be in dictionary ''
     @ ''format, received %(properties)s from node ''
     @ ''%(node)s.''"

definition no_properties_template :: string where
  "no_properties_template =
     ''The node %s didn't return 'properties' as the key with ''
     @ ''inspection.''"

definition macs_format_template :: string where
  "macs_format_template =
     ''Node %(node)s didn't return MACs %(macs)s ''
     @ ''in dictionary format.''"

definition no_macs_template :: string where
  "no_macs_template =
     ''The node %s didn't return 'macs' as the key with ''
     @ ''inspection.''"

text \<open>\<open>valid_keys - set(data['properties'])\<close>.\<close>

definition missing_keys :: "pydict \<Rightarrow> string list" where
  "missing_keys props = filter (\<lambda>k. k \<notin> set (map fst props)) ESSENTIAL_PROPERTIES_KEYS"

definition validate_properties :: "node \<Rightarrow> pydict \<Rightarrow> error + unit" where
  "validate_properties nd data =
     (if py_truthy (py_get data ''properties'') then
        (case py_get data ''properties'' of
           PDict props \<Rightarrow>
             if missing_keys props \<noteq> [] then
               raise_with failure
                 (py_mod missing_keys_template
                    [(''key'', PStr (join '', '' (missing_keys props)))])
             else Inr ()
         | other \<Rightarrow>
             raise_with failure
               (py_mod properties_format_template
                  [(''properties'', other), (''node'', PStr (uuid nd))]))
      else raise_with failure (py_mod1 no_properties_template (PStr (uuid nd))))"

definition validate_macs :: "node \<Rightarrow> pydict \<Rightarrow> error + unit" where
  "validate_macs nd data =
     (if py_truthy (py_get data ''macs'') then
        (if \<not> isinstance_dict (py_get data ''macs'') then
           raise_with failure
             (py_mod macs_format_template
                [(''macs'', py_get data ''macs''), (''node'', PStr (uuid nd))])
         else Inr ())
      else raise_with failure (py_mod1 no_macs_template (PStr (uuid nd))))"

text \<open>\<open>_validate(node, data)\<close>: the check of \<open>properties\<close>, then the check of \<open>macs\<close>.
  \<open>data.get\<close> needs a dictionary.\<close>

fun validate :: "node \<Rightarrow> pyval \<Rightarrow> error + unit" where
  "validate nd (PDict data) =
     (case validate_properties nd data of
        Inl e \<Rightarrow> Inl e
      | Inr u \<Rightarrow> validate_macs nd data)"
| "validate nd other = Inl AttributeError"

subsection \<open>\<open>_create_supported_capabilities_dict\<close>\<close>

text \<open>
  \<open>CAPABILITIES_KEYS.intersection(capabilities)\<close> iterates its argument and hashes
  every element: a dictionary gives its keys, a list its elements (a list or a dictionary
  among them is unhashable), a string its characters; anything else is not iterable.
\<close>

fun hashable :: "pyval \<Rightarrow> bool" where
  "hashable (PList xs) = False"
| "hashable (PDict kvs) = False"
| "hashable v = True"

fun py_iter :: "pyval \<Rightarrow> error + pyval list" where
  "py_iter (PDict kvs) = Inr (map (\<lambda>kv. PStr (fst kv)) kvs)"
| "py_iter (PList xs) = (if list_all hashable xs then Inr xs else Inl TypeError)"
| "py_iter (PStr s) = Inr (map (\<lambda>c. PStr [c]) s)"
| "py_iter v = Inl TypeError"

definition intersection :: "string list \<Rightarrow> pyval \<Rightarrow> error + string list" where
  "intersection keys v =
     (case py_iter v of
        Inl e \<Rightarrow> Inl e
      | Inr elems \<Rightarrow> Inr (filter (\<lambda>k. PStr k \<in> set elems) keys))"

text \<open>The loop body \<open>valid_cap[key] = capabilities.get(key)\<close>; \<open>get\<close> is a method of
  dictionaries only.\<close>

fun supported_loop :: "pyval \<Rightarrow> string list \<Rightarrow> pydict \<Rightarrow> error + pydict" where
  "supported_loop capabilities [] valid_cap = Inr valid_cap"
| "supported_loop capabilities (key # keys) valid_cap =
     (case capabilities of
        PDict d \<Rightarrow> supported_loop capabilities keys (AList.update key (py_get d key) valid_cap)
      | other \<Rightarrow> Inl AttributeError)"

definition create_supported_capabilities_dict :: "pyval \<Rightarrow> error + pydict" where
  "create_supported_capabilities_dict capabilities =
     (case intersection CAPABILITIES_KEYS capabilities of
        Inl e \<Rightarrow> Inl e
      | Inr keys \<Rightarrow> supported_loop capabilities keys [])"

subsection \<open>\<open>_update_capabilities\<close>\<close>

definition invalid_capabilities_template :: string where
  "invalid_capabilities_template =
     ''Node %(node)s has invalid capabilities string ''
     @ ''%(capabilities), unable to modify the node ''
     @ ''properties['capabilities'] string''"

definition capabilities_format_template :: string where
  "capabilities_format_template =
     ''The expected format of capabilities from inspection ''
     @ ''is dictionary while node %(node)s returned ''
     @ ''%(capabilities)s.''"

text \<open>\<open>dict(pairs)\<close>: every element must have two items (\<open>ValueError\<close> otherwise); a
  later pair replaces an earlier one with the same key.\<close>

fun py_dict :: "string list list \<Rightarrow> pydict \<Rightarrow> error + pydict" where
  "py_dict [] acc = Inr acc"
| "py_dict (x # xs) acc =
     (case x of
        [k, v] \<Rightarrow> py_dict xs (AList.update k (PStr v) acc)
      | other \<Rightarrow> Inl ValueError)"

text \<open>\<open>dict(x.split(':', 1) for x in node_capabilities.split(','))\<close>.\<close>

definition parse_capabilities :: "string \<Rightarrow> error + pydict" where
  "parse_capabilities s = py_dict (map (split_first CHR '':'') (split_on CHR '','' s)) []"

text \<open>\<open>cap_dict.update(new_capabilities)\<close>.\<close>

definition dict_update :: "pydict \<Rightarrow> pydict \<Rightarrow> pydict" where
  "dict_update d new = fold (\<lambda>kv acc. AList.update (fst kv) (snd kv) acc) new d"

text \<open>\<open>','.join(['%(key)s:%(value)s' % ... for key, value in six.iteritems(cap_dict)])\<close>.\<close>

definition serialize :: "pydict \<Rightarrow> string" where
  "serialize d = join '','' (map (\<lambda>kv. fst kv @ '':'' @ py_str (snd kv)) d)"

text \<open>The first half of the function: the dictionary of the node's own capabilities.
  \<open>split\<close> is a method of strings only; the handler of \<open>ValueError\<close> builds its message
  with \<open>%\<close> before it raises.\<close>

definition node_cap_dict :: "node \<Rightarrow> error + pydict" where
  "node_cap_dict nd =
     (let node_capabilities = py_get (properties nd) ''capabilities'' in
      if py_truthy node_capabilities then
        (case node_capabilities of
           PStr s \<Rightarrow>
             (case parse_capabilities s of
                Inr cap_dict \<Rightarrow> Inr cap_dict
              | Inl e \<Rightarrow>
                  if e = ValueError then
                    raise_with InvalidParameterValue
                      (py_mod invalid_capabilities_template
                         [(''node'', PStr (uuid nd)), (''capabilities'', node_capabilities)])
                  else Inl e)
         | other \<Rightarrow> Inl AttributeError)
      else Inr [])"

definition update_capabilities :: "node \<Rightarrow> pyval \<Rightarrow> error + string" where
  "update_capabilities nd new_capabilities =
     (case node_cap_dict nd of
        Inl e \<Rightarrow> Inl e
      | Inr cap_dict \<Rightarrow>
          (case new_capabilities of
             PDict new \<Rightarrow> Inr (serialize (dict_update cap_dict new))
           | other \<Rightarrow>
               raise_with failure
                 (py_mod capabilities_format_template
                    [(''node'', PStr (uuid nd)), (''capabilities'', other)])))"

subsection \<open>\<open>_get_macs_for_desired_ports\<close>\<close>

definition missing_ports_template :: string where
  "missing_ports_template =
     ''Could not find requested ports %(ports)s on the ''
     @ ''node %(node)s''"

text \<open>\<open>str(driver_info.get('inspect_ports'))\<close>.\<close>

definition desired_macs :: "node \<Rightarrow> string" where
  "desired_macs nd =
     (case map_of (driver_info nd) ''inspect_ports'' of
        None \<Rightarrow> ''None''
      | Some v \<Rightarrow> v)"

definition desired_macs_list :: "node \<Rightarrow> string list" where
  "desired_macs_list nd = map (\<lambda>port_number. ''Port '' @ port_number)
                              (split_on CHR '','' (desired_macs nd))"

text \<open>The loop over the wanted labels, with its two accumulators.\<close>

fun desired_loop :: "pydict \<Rightarrow> string list \<Rightarrow> pydict \<times> string list \<Rightarrow> pydict \<times> string list" where
  "desired_loop macs [] acc = acc"
| "desired_loop macs (port_number # rest) (to_be_created_macs, non_existing_ports) =
     (let mac_address = py_get macs port_number in
      if py_truthy mac_address
      then desired_loop macs rest
             (AList.update port_number mac_address to_be_created_macs, non_existing_ports)
      else desired_loop macs rest (to_be_created_macs, non_existing_ports @ [port_number]))"

definition get_macs_for_desired_ports :: "node \<Rightarrow> pydict \<Rightarrow> error + pydict" where
  "get_macs_for_desired_ports nd macs =
     (if lower (desired_macs nd) = ''all'' then Inr macs
      else
        (case desired_loop macs (desired_macs_list nd) ([], []) of
           (to_be_created_macs, non_existing_ports) \<Rightarrow>
             if non_existing_ports \<noteq> [] then
               raise_with failure
                 (py_mod missing_ports_template
                    [(''ports'', PList (map PStr non_existing_ports)),
                     (''node'', PStr (uuid nd))])
             else Inr to_be_created_macs))"

subsection \<open>IloInspect.validate\<close>



text \<open>
  The spec's \<open>InvalidConfiguration\<close> condition: \<open>MissingParameterValue\<close> is a subclass
  of \<open>InvalidParameterValue\<close> in \<open>ironic.common.exception\<close>.
\<close>

fun InvalidConfiguration :: "error \<Rightarrow> bool" where
  "InvalidConfiguration (InvalidParameterValue m) = True"
| "InvalidConfiguration (MissingParameterValue m) = True"
| "InvalidConfiguration e = False"

subsection \<open>Collaborators and the state of one inspection\<close>

text \<open>
  The power interface, the controller client and the database are outside this module.
  They are parameters: each call reads the world \<open>'w\<close> and returns its outcome, and the
  calls that act return the new world as well. An outcome \<open>Some e\<close> or \<open>Inl e\<close> is the
  exception the call raises.
\<close>

datatype power_state = POWER_ON | POWER_OFF | POWER_ERROR

datatype provision_state = MANAGEABLE

record 'w collaborators =
  get_ilo_object :: "node \<Rightarrow> 'w \<Rightarrow> error option"
  get_power_state :: "'w \<Rightarrow> error + power_state"
  node_power_action :: "power_state \<Rightarrow> 'w \<Rightarrow> error option \<times> 'w"
  ilo_get_essential_properties :: "'w \<Rightarrow> error + pyval"
  ilo_get_server_capabilities :: "'w \<Rightarrow> error + pyval"
  node_save :: "node \<Rightarrow> 'w \<Rightarrow> error option \<times> 'w"
  create_port :: "pydict \<Rightarrow> 'w \<Rightarrow> error option \<times> 'w"

text \<open>The calls the workflow makes, in order, each with what it was given and what came
  back; and the log.\<close>

datatype call =
    GetPowerState
  | PowerAction power_state "error option"
  | GetEssentialProperties
  | GetServerCapabilities
  | Save node "error option"
  | CreatePort pydict "error option"

datatype level = DEBUG | INFO | WARN

type_synonym log_entry = "level \<times> string \<times> pyval"

record 'w run =
  world :: 'w
  task_node :: node
  calls :: "call list"
  logs :: "log_entry list"

type_synonym ('w, 'a) action = "'w run \<Rightarrow> (error + 'a) \<times> 'w run"

text \<open>Sequencing: an exception ends the run, with the state it was raised in.\<close>

definition bind :: "('w, 'a) action \<Rightarrow> ('a \<Rightarrow> ('w, 'b) action) \<Rightarrow> ('w, 'b) action" where
  "bind m f s = (case m s of (Inl e, s') \<Rightarrow> (Inl e, s') | (Inr a, s') \<Rightarrow> f a s')"

definition return :: "'a \<Rightarrow> ('w, 'a) action" where
  "return a s = (Inr a, s)"

definition lift :: "error + 'a \<Rightarrow> ('w, 'a) action" where
  "lift r s = (r, s)"

definition LOG :: "level \<Rightarrow> string \<Rightarrow> pyval \<Rightarrow> ('w, unit) action" where
  "LOG lvl template args s = (Inr (), s\<lparr>logs := logs s @ [(lvl, template, args)]\<rparr>)"

definition outcome :: "error option \<Rightarrow> error + unit" where
  "outcome r = (case r of None \<Rightarrow> Inr () | Some e \<Rightarrow> Inl e)"

definition power_get :: "'w collaborators \<Rightarrow> ('w, power_state) action" where
  "power_get c s = (get_power_state c (world s), s\<lparr>calls := calls s @ [GetPowerState]\<rparr>)"

definition power_action :: "'w collaborators \<Rightarrow> power_state \<Rightarrow> ('w, unit) action" where
  "power_action c target s =
     (case node_power_action c target (world s) of
        (r, w') \<Rightarrow> (outcome r, s\<lparr>world := w', calls := calls s @ [PowerAction target r]\<rparr>))"

definition save :: "'w collaborators \<Rightarrow> ('w, unit) action" where
  "save c s =
     (case node_save c (task_node s) (world s) of
        (r, w') \<Rightarrow> (outcome r, s\<lparr>world := w', calls := calls s @ [Save (task_node s) r]\<rparr>))"

definition set_properties :: "pydict \<Rightarrow> ('w, unit) action" where
  "set_properties props s = (Inr (), s\<lparr>task_node := (task_node s)\<lparr>properties := props\<rparr>\<rparr>)"

subsection \<open>\<open>_create_ports_if_not_exist\<close>\<close>

definition port_created_template :: string where
  "port_created_template =
     ''Port created for MAC address %(address)s for node ''
     @ ''%(node)s''"

definition port_exists_template :: string where
  "port_exists_template =
     ''Port already exists for MAC address %(address)s ''
     @ ''for node %(node)s''"

definition port_dict :: "node \<Rightarrow> pyval \<Rightarrow> pydict" where
  "port_dict nd mac = [(''address'', mac), (''node_id'', PInt (int (node_id nd)))]"

definition port_log :: "node \<Rightarrow> pyval \<Rightarrow> error option \<Rightarrow> log_entry" where
  "port_log nd mac r =
     (if r = None
      then (INFO, port_created_template, PDict [(''address'', mac), (''node'', PStr (uuid nd))])
      else (WARN, port_exists_template, PDict [(''address'', mac), (''node'', PStr (uuid nd))]))"

text \<open>The loop over \<open>macs.values()\<close>: \<open>MACAlreadyExists\<close> is caught, anything else leaves
  the loop.\<close>

fun create_ports_loop :: "'w collaborators \<Rightarrow> pyval list \<Rightarrow> ('w, unit) action" where
  "create_ports_loop c [] s = (Inr (), s)"
| "create_ports_loop c (mac # rest) s =
     (case create_port c (port_dict (task_node s) mac) (world s) of
        (r, w') \<Rightarrow>
          (let s' = s\<lparr>world := w',
                      calls := calls s @ [CreatePort (port_dict (task_node s) mac) r]\<rparr>
           in if r = None \<or> r = Some MACAlreadyExists
              then create_ports_loop c rest
                     (s'\<lparr>logs := logs s' @ [port_log (task_node s) mac r]\<rparr>)
              else (outcome r, s')))"

definition create_ports_if_not_exist :: "'w collaborators \<Rightarrow> pydict \<Rightarrow> ('w, unit) action" where
  "create_ports_if_not_exist c macs = create_ports_loop c (map snd macs)"

subsection \<open>\<open>_get_essential_properties\<close> and \<open>_get_capabilities\<close>\<close>

text \<open>An \<open>IloError\<close> of the query is wrapped; any other exception goes through.\<close>

definition get_essential_properties :: "'w collaborators \<Rightarrow> ('w, pyval) action" where
  "get_essential_properties c s =
     (let s' = s\<lparr>calls := calls s @ [GetEssentialProperties]\<rparr> in
      case ilo_get_essential_properties c (world s) of
        Inl (IloError t) \<Rightarrow> (Inl (HardwareInspectionFailure (Exception (IloError t))), s')
      | Inl e \<Rightarrow> (Inl e, s')
      | Inr result \<Rightarrow>
          (case validate (task_node s) result of
             Inl e \<Rightarrow> (Inl e, s')
           | Inr u \<Rightarrow> (Inr result, s')))"

definition no_capabilities_template :: string where
  "no_capabilities_template = ''Node %s did not return any additional capabilities.''"

text \<open>An \<open>IloError\<close> of the query is logged, and the result is \<open>None\<close>.\<close>

definition get_capabilities :: "'w collaborators \<Rightarrow> ('w, pyval) action" where
  "get_capabilities c s =
     (let s' = s\<lparr>calls := calls s @ [GetServerCapabilities]\<rparr> in
      case ilo_get_server_capabilities c (world s) of
        Inl (IloError t) \<Rightarrow>
          (Inr PNone,
           s'\<lparr>logs := logs s' @ [(DEBUG, no_capabilities_template, PStr (uuid (task_node s)))]\<rparr>)
      | Inl e \<Rightarrow> (Inl e, s')
      | Inr capabilities \<Rightarrow> (Inr capabilities, s'))"

subsection \<open>IloInspect.inspect_hardware\<close>

definition power_state_template :: string where
  "power_state_template = ''Inspecting hardware (get_power_state) on %s''"

definition powering_on_template :: string where
  "powering_on_template =
     ''The node %s is not powered on. Powering on the ''
     @ ''node for inspection.''"

definition properties_updated_template :: string where
  "properties_updated_template =
     ''Node properties for %(node)s are updated as ''
     @ ''%(properties)s''"

definition inspected_template :: string where
  "inspected_template = ''Node %s inspected.''"

definition powered_off_template :: string where
  "powered_off_template =
     ''The node %s was powered on for inspection. ''
     @ ''Powered off the node as inspection completed.''"

text \<open>\<open>d[k]\<close>.\<close>

fun subscript :: "pyval \<Rightarrow> string \<Rightarrow> error + pyval" where
  "subscript (PDict d) k = (case map_of d k of None \<Rightarrow> Inl KeyError | Some v \<Rightarrow> Inr v)"
| "subscript v k = Inl TypeError"

text \<open>The loop \<open>inspected_properties[known_property] = properties[known_property]\<close>.\<close>

fun inspected_loop :: "pyval \<Rightarrow> string list \<Rightarrow> pydict \<Rightarrow> error + pydict" where
  "inspected_loop props [] inspected_properties = Inr inspected_properties"
| "inspected_loop props (known_property # rest) inspected_properties =
     (case subscript props known_property of
        Inl e \<Rightarrow> Inl e
      | Inr v \<Rightarrow> inspected_loop props rest (AList.update known_property v inspected_properties))"

text \<open>Lines 333 to 346: the power state is read, an \<open>IloOperationError\<close> is raised again
  with the operation, and the node is powered on when it is not.\<close>

definition power_guard_enter :: "'w collaborators \<Rightarrow> ('w, bool) action" where
  "power_guard_enter c s =
     (case power_get c s of
        (Inl (IloOperationError m x), s') \<Rightarrow>
          (case py_mod1 power_state_template (PStr (uuid (task_node s))) of
             Inl e \<Rightarrow> (Inl e, s')
           | Inr operation \<Rightarrow>
               (Inl (IloOperationError operation (Exception (IloOperationError m x))), s'))
      | (Inl e, s') \<Rightarrow> (Inl e, s')
      | (Inr state, s') \<Rightarrow>
          if state \<noteq> POWER_ON then
            bind (LOG INFO powering_on_template (PStr (uuid (task_node s))))
              (\<lambda>u. bind (power_action c POWER_ON) (\<lambda>u. return True)) s'
          else (Inr False, s'))"

text \<open>Lines 351 to 358: the essential properties are copied into the properties of the
  node held by the task.\<close>

definition merge_properties :: "pyval \<Rightarrow> ('w, pydict) action" where
  "merge_properties result =
     bind (lift (subscript result ''properties''))
       (\<lambda>props. bind (lift (inspected_loop props ESSENTIAL_PROPERTIES_KEYS []))
          (\<lambda>inspected_properties s.
             bind (set_properties (dict_update (properties (task_node s)) inspected_properties))
               (\<lambda>u. return inspected_properties) s))"

text \<open>Lines 364 to 370.\<close>

definition capabilities_step :: "'w collaborators \<Rightarrow> ('w, unit) action" where
  "capabilities_step c =
     bind (get_capabilities c)
       (\<lambda>capabilities.
          if py_truthy capabilities then
            bind (lift (create_supported_capabilities_dict capabilities))
              (\<lambda>valid_cap s.
                 bind (lift (update_capabilities (task_node s) (PDict valid_cap)))
                   (\<lambda>capabilities.
                      if capabilities \<noteq> [] then
                        set_properties
                          (AList.update ''capabilities'' (PStr capabilities)
                             (properties (task_node s)))
                      else return ()) s)
          else return ())"

text \<open>Lines 382 to 389. \<open>_get_macs_for_desired_ports\<close> calls \<open>macs.get\<close>, and
  \<open>_create_ports_if_not_exist\<close> calls \<open>macs.values\<close>.\<close>

definition ports_step :: "'w collaborators \<Rightarrow> pyval \<Rightarrow> ('w, unit) action" where
  "ports_step c result s =
     (case map_of (driver_info (task_node s)) ''inspect_ports'' of
        None \<Rightarrow> (Inl KeyError, s)
      | Some v \<Rightarrow>
          if lower v \<noteq> ''none'' then
            (case subscript result ''macs'' of
               Inl e \<Rightarrow> (Inl e, s)
             | Inr (PDict macs) \<Rightarrow>
                 bind (lift (get_macs_for_desired_ports (task_node s) macs))
                   (\<lambda>macs_input_given.
                      if macs_input_given \<noteq> []
                      then create_ports_if_not_exist c macs_input_given
                      else return ()) s
             | Inr other \<Rightarrow> (Inl AttributeError, s))
          else (Inr (), s))"

text \<open>Lines 391 to 402.\<close>

definition power_guard_exit :: "'w collaborators \<Rightarrow> pydict \<Rightarrow> bool \<Rightarrow> ('w, provision_state) action" where
  "power_guard_exit c inspected_properties power_turned_on s =
     bind (LOG DEBUG properties_updated_template
             (PDict [(''properties'', PDict inspected_properties),
                     (''node'', PStr (uuid (task_node s)))]))
       (\<lambda>u. bind (LOG INFO inspected_template (PStr (uuid (task_node s))))
          (\<lambda>u. if power_turned_on then
                  bind (power_action c POWER_OFF)
                    (\<lambda>u. bind (LOG INFO powered_off_template (PStr (uuid (task_node s))))
                       (\<lambda>u. return MANAGEABLE))
                else return MANAGEABLE)) s"

definition inspect_hardware :: "'w collaborators \<Rightarrow> ('w, provision_state) action" where
  "inspect_hardware c =
     bind (\<lambda>s. (outcome (get_ilo_object c (task_node s) (world s)), s))
       (\<lambda>u. bind (power_guard_enter c)
          (\<lambda>power_turned_on. bind (get_essential_properties c)
             (\<lambda>result. bind (merge_properties result)
                (\<lambda>inspected_properties. bind (capabilities_step c)
                   (\<lambda>u. bind (save c)
                      (\<lambda>u. bind (ports_step c result)
                         (\<lambda>u. power_guard_exit c inspected_properties power_turned_on)))))))"

text \<open>A run starts from the node the task holds, with nothing called or logged yet.\<close>

definition start :: "node \<Rightarrow> 'w \<Rightarrow> 'w run" where
  "start nd w = \<lparr>world = w, task_node = nd, calls = [], logs = []\<rparr>"

subsection \<open>Example data\<close>

definition example_node :: node where
  "example_node = \<lparr>node_id = 1, uuid = ''n1'', properties = [], driver_info = []\<rparr>"

text \<open>The malformed capabilities string of the comment in \<open>_update_capabilities\<close>.\<close>

definition malformed_node :: node where
  "malformed_node =
     example_node\<lparr>properties := [(''capabilities'', PStr ''boot_mode:bios,boot_option'')]\<rparr>"

definition empty_properties_result :: pyval where
  "empty_properties_result =
     PDict [(''properties'', PDict []),
            (''macs'', PDict [(''Port 1'', PStr ''aa:aa:aa:aa:aa:aa'')])]"

subsection \<open>The words of the specification\<close>




text \<open>
  An error names a key when the key occurs in the template of its message or in one of
  the string arguments of the message.
\<close>

fun is_prefix :: "string \<Rightarrow> string \<Rightarrow> bool" where
  "is_prefix [] ys = True"
| "is_prefix (x # xs) [] = False"
| "is_prefix (x # xs) (y # ys) = (x = y \<and> is_prefix xs ys)"

fun occurs_in :: "string \<Rightarrow> string \<Rightarrow> bool" where
  "occurs_in k [] = (k = [])"
| "occurs_in k (y # ys) = (is_prefix k (y # ys) \<or> occurs_in k ys)"

fun string_args :: "pydict \<Rightarrow> string list" where
  "string_args [] = []"
| "string_args ((k, PStr s) # rest) = s # string_args rest"
| "string_args ((k, v) # rest) = string_args rest"

fun names :: "error \<Rightarrow> string \<Rightarrow> bool" where
  "names (HardwareInspectionFailure (Text (Message template args))) k =
     list_ex (occurs_in k) (template # string_args args)"
| "names e k = False"

subsection \<open>A simulated world\<close>

text \<open>
  Collaborators to run the workflow on: the power actions set the power state, saving
  appends the node to the saved ones, and a port is created unless one with its address
  exists. The two answers of the controller are given.
\<close>

record sim_world =
  sim_power :: power_state
  sim_saved :: "node list"
  sim_ports :: "pyval list"

definition sim :: "error + pyval \<Rightarrow> error + pyval \<Rightarrow> sim_world collaborators" where
  "sim essential capabilities =
     \<lparr>get_ilo_object = (\<lambda>nd w. None),
      get_power_state = (\<lambda>w. Inr (sim_power w)),
      node_power_action = (\<lambda>target w. (None, w\<lparr>sim_power := target\<rparr>)),
      ilo_get_essential_properties = (\<lambda>w. essential),
      ilo_get_server_capabilities = (\<lambda>w. capabilities),
      node_save = (\<lambda>nd w. (None, w\<lparr>sim_saved := sim_saved w @ [nd]\<rparr>)),
      create_port = (\<lambda>port w.
         if py_get port ''address'' \<in> set (sim_ports w) then (Some MACAlreadyExists, w)
         else (None, w\<lparr>sim_ports := sim_ports w @ [py_get port ''address'']\<rparr>))\<rparr>"

definition powered_off :: sim_world where
  "powered_off = \<lparr>sim_power = POWER_OFF, sim_saved = [], sim_ports = []\<rparr>"

definition essential_values :: pydict where
  "essential_values =
     [(''memory_mb'', PInt 4096), (''local_gb'', PInt 100), (''cpus'', PInt 8),
      (''cpu_arch'', PStr ''x86_64'')]"


definition one_port_node :: node where
  "one_port_node = example_node\<lparr>driver_info := [(''inspect_ports'', ''1'')]\<rparr>"

definition two_macs :: pydict where
  "two_macs = [(''Port 1'', PStr ''aa:aa:aa:aa:aa:aa''), (''Port 2'', PStr ''bb:bb:bb:bb:bb:bb'')]"

text \<open>The labels of the wanted ports that the mapping does not bind to a true value.\<close>

definition absent_ports :: "node \<Rightarrow> pydict \<Rightarrow> string list" where
  "absent_ports nd macs = filter (\<lambda>l. \<not> py_truthy (py_get macs l)) (desired_macs_list nd)"





text \<open>A world in which the second port exists, and a database that is down.\<close>

definition second_port_exists :: sim_world where
  "second_port_exists = powered_off\<lparr>sim_ports := [PStr ''bb:bb:bb:bb:bb:bb'']\<rparr>"

definition database_down :: "sim_world collaborators" where
  "database_down =
     (sim (Inr PNone) (Inr PNone))
       \<lparr>create_port := (\<lambda>port w. (Some (OtherError ''database is down''), w))\<rparr>"

text \<open>
  A capabilities string read as a map, the way \<open>_update_capabilities\<close> reads the string
  of the node: the empty string is the empty map, any other string is split at the commas
  and each token at its first colon.
\<close>

definition capability_map :: "string \<Rightarrow> error + pydict" where
  "capability_map s = (if s = [] then Inr [] else parse_capabilities s)"

text \<open>The text that the serialization writes for each value.\<close>

definition written :: "pydict \<Rightarrow> pydict" where
  "written d = map (\<lambda>kv. (fst kv, PStr (py_str (snd kv)))) d"

text \<open>
  The format has no escaping. An item can be read back when its key has neither comma nor
  colon and the text of its value has no comma.
\<close>

definition plain_item :: "string \<times> pyval \<Rightarrow> bool" where
  "plain_item kv =
     (CHR '','' \<notin> set (fst kv) \<and> CHR '':'' \<notin> set (fst kv)
      \<and> CHR '','' \<notin> set (py_str (snd kv)))"

text \<open>An item as the parser makes it: plain, with a string for its value.\<close>

definition parsed_item :: "string \<times> pyval \<Rightarrow> bool" where
  "parsed_item kv = (plain_item kv \<and> (\<exists>t. snd kv = PStr t))"

definition operator_node :: node where
  "operator_node =
     example_node\<lparr>properties := [(''capabilities'', PStr ''boot_mode:bios,custom:foo'')]\<rparr>"

definition store_capabilities :: "node \<Rightarrow> string \<Rightarrow> node" where
  "store_capabilities nd s =
     nd\<lparr>properties := AList.update ''capabilities'' (PStr s) (properties nd)\<rparr>"






definition good_result :: pyval where
  "good_result = PDict [(''properties'', PDict essential_values), (''macs'', PDict two_macs)]"

definition second_port_node :: node where
  "second_port_node = example_node\<lparr>driver_info := [(''inspect_ports'', ''2'')]\<rparr>"

section \<open>Properties\<close>

subsection \<open>The templates under \<open>%\<close>\<close>



lemma scan_invalid_capabilities:
  "scan_format Normal invalid_capabilities_template = Inl ValueError"
  by (simp add: invalid_capabilities_template_def conversion_types_def)

lemma scan_missing_keys:
  "scan_format Normal missing_keys_template = Inr [Keyed ''key'' CHR ''s'']"
  by (simp add: missing_keys_template_def conversion_types_def)

lemma mod_missing_keys:
  "py_mod missing_keys_template [(''key'', a)]
     = Inr (Message missing_keys_template [(''key'', a)])"
  by (simp add: py_mod_def scan_missing_keys)

lemma scan_no_properties:
  "scan_format Normal no_properties_template = Inr [Plain CHR ''s'']"
  by (simp add: no_properties_template_def conversion_types_def)

lemma mod_no_properties:
  "py_mod1 no_properties_template a = Inr (Message no_properties_template [([], a)])"
  by (simp add: py_mod1_def scan_no_properties)



lemma scan_properties_format:
  "scan_format Normal properties_format_template
     = Inr [Keyed ''properties'' CHR ''s'', Keyed ''node'' CHR ''s'']"
  by (simp add: properties_format_template_def conversion_types_def)

lemma mod_properties_format:
  "py_mod properties_format_template [(''properties'', a), (''node'', b)]
     = Inr (Message properties_format_template [(''properties'', a), (''node'', b)])"
  by (simp add: py_mod_def scan_properties_format)

lemma scan_macs_format:
  "scan_format Normal macs_format_template
     = Inr [Keyed ''node'' CHR ''s'', Keyed ''macs'' CHR ''s'']"
  by (simp add: macs_format_template_def conversion_types_def)

lemma mod_macs_format:
  "py_mod macs_format_template [(''macs'', a), (''node'', b)]
     = Inr (Message macs_format_template [(''macs'', a), (''node'', b)])"
  by (simp add: py_mod_def scan_macs_format)

subsection \<open>The Config Validator\<close>




subsection \<open>The Essential-Property Validator\<close>

lemma is_prefix_append: "is_prefix xs (xs @ ys)"
  by (induction xs) auto

lemma occurs_in_append: "occurs_in k ys \<Longrightarrow> occurs_in k (xs @ ys)"
  by (induction xs) auto

lemma occurs_in_Nil: "occurs_in [] ys"
  by (cases ys) auto

lemma occurs_in_prefix: "occurs_in k (k @ ys)"
  by (cases k) (auto simp: is_prefix_append occurs_in_Nil)

lemma occurs_in_join: "k \<in> set xs \<Longrightarrow> occurs_in k (join sep xs)"
proof (induction sep xs rule: join.induct)
  case (1 sep)
  then show ?case by simp
next
  case (2 sep x)
  then show ?case using occurs_in_prefix [of k "[]"] by simp
next
  case (3 sep x y ys)
  show ?case
  proof (cases "k = x")
    case True
    then show ?thesis using occurs_in_prefix [of x "sep @ join sep (y # ys)"] by simp
  next
    case False
    with 3 have "occurs_in k (join sep (y # ys))" by simp
    then have "occurs_in k (x @ sep @ join sep (y # ys))"
      by (intro occurs_in_append)
    then show ?thesis by simp
  qed
qed

lemma missing_keys_iff:
  "k \<in> set (missing_keys props)
     \<longleftrightarrow> k \<in> set ESSENTIAL_PROPERTIES_KEYS \<and> k \<notin> fst ` set props"
  by (auto simp: missing_keys_def)

text \<open>
  C5, as stated, fails: a properties mapping that is empty misses all four keys, and it
  is taken for an absent \<open>properties\<close> key, so the message names none of them.
\<close>

theorem validate_empty_properties_counterexample:
  "missing_keys [] = [''memory_mb'', ''local_gb'', ''cpus'', ''cpu_arch'']
   \<and> validate example_node empty_properties_result
       = Inl (failure (Message no_properties_template [([], PStr ''n1'')]))
   \<and> \<not> names (failure (Message no_properties_template [([], PStr ''n1'')])) ''memory_mb''"
proof -
  have "missing_keys [] = [''memory_mb'', ''local_gb'', ''cpus'', ''cpu_arch'']"
    by (simp add: missing_keys_def ESSENTIAL_PROPERTIES_KEYS_def)
  moreover have "validate example_node empty_properties_result
       = Inl (failure (Message no_properties_template [([], PStr ''n1'')]))"
    by (simp add: empty_properties_result_def validate_properties_def py_get_def
        mod_no_properties example_node_def)
  moreover have
    "\<not> names (failure (Message no_properties_template [([], PStr ''n1'')])) ''memory_mb''"
    by (simp add: failure_def no_properties_template_def)
  ultimately show ?thesis by simp
qed

text \<open>
  C5, amended: for every inspection result whose properties value is a non-empty mapping
  that misses a non-empty subset of the four essential keys, the validator fails, and its
  one error message names all the absent keys together: its argument is the absent keys
  joined by commas.
\<close>

theorem validate_missing_keys:
  assumes "py_get data ''properties'' = PDict props" and "props \<noteq> []"
    and "missing_keys props \<noteq> []"
  shows "\<exists>e. validate nd (PDict data) = Inl e
           \<and> e = failure (Message missing_keys_template
                    [(''key'', PStr (join '', '' (missing_keys props)))])
           \<and> (\<forall>k \<in> set ESSENTIAL_PROPERTIES_KEYS. k \<notin> fst ` set props \<longrightarrow> names e k)"
proof -
  have "validate_properties nd data
          = Inl (failure (Message missing_keys_template
                   [(''key'', PStr (join '', '' (missing_keys props)))]))"
    using assms by (simp add: validate_properties_def mod_missing_keys)
  moreover have "names (failure (Message missing_keys_template
                   [(''key'', PStr (join '', '' (missing_keys props)))])) k"
    if "k \<in> set ESSENTIAL_PROPERTIES_KEYS" and "k \<notin> fst ` set props" for k
  proof -
    from that have "k \<in> set (missing_keys props)" by (simp add: missing_keys_iff)
    then have "occurs_in k (join '', '' (missing_keys props))" by (rule occurs_in_join)
    then show ?thesis by (simp add: failure_def)
  qed
  ultimately show ?thesis by simp
qed

text \<open>C5, amended, at a result that has \<open>cpus\<close> only: the message names the other
  three keys.\<close>

theorem validate_missing_keys_witness:
  "\<exists>e. validate example_node
          (PDict [(''properties'', PDict [(''cpus'', PInt 2)]),
                  (''macs'', PDict [(''Port 1'', PStr ''aa:aa:aa:aa:aa:aa'')])]) = Inl e
       \<and> e = failure (Message missing_keys_template
                [(''key'', PStr ''memory_mb, local_gb, cpu_arch'')])
       \<and> names e ''memory_mb'' \<and> names e ''local_gb'' \<and> names e ''cpu_arch''"
  using validate_missing_keys [where nd = example_node and props = "[(''cpus'', PInt 2)]"
      and data = "[(''properties'', PDict [(''cpus'', PInt 2)]),
                   (''macs'', PDict [(''Port 1'', PStr ''aa:aa:aa:aa:aa:aa'')])]"]
  by (simp add: py_get_def missing_keys_def ESSENTIAL_PROPERTIES_KEYS_def)

subsection \<open>The Capability Merger\<close>

text \<open>
  C7: a malformed capabilities string of the node should end in \<open>InvalidParameterValue\<close>.
  On the string of the source's own comment, \<open>dict\<close> raises \<open>ValueError\<close>, and the
  handler's template has \<open>%(capabilities),\<close> with no conversion type, so the \<open>%\<close> that
  builds the message raises \<open>ValueError\<close> again: that is what leaves the function.
\<close>

theorem update_capabilities_malformed:
  "parse_capabilities ''boot_mode:bios,boot_option'' = Inl ValueError
   \<and> update_capabilities malformed_node (PDict []) = Inl ValueError
   \<and> \<not> InvalidConfiguration ValueError"
  by (simp add: update_capabilities_def node_cap_dict_def malformed_node_def example_node_def
      py_get_def parse_capabilities_def split_first_def py_mod_def scan_invalid_capabilities)

subsection \<open>Empty mappings in the inspection result\<close>



lemma validate_macs_cong:
  "py_get d ''macs'' = py_get d' ''macs'' \<Longrightarrow> validate_macs nd d = validate_macs nd d'"
  by (simp add: validate_macs_def)



lemma bind_Inl: "fst (m s) = Inl e \<Longrightarrow> fst (bind m f s) = Inl e"
  by (cases "m s") (auto simp: bind_def)






subsection \<open>The Port Selection Policy\<close>

lemma scan_missing_ports:
  "scan_format Normal missing_ports_template
     = Inr [Keyed ''ports'' CHR ''s'', Keyed ''node'' CHR ''s'']"
  by (simp add: missing_ports_template_def conversion_types_def)

lemma mod_missing_ports:
  "py_mod missing_ports_template [(''ports'', a), (''node'', b)]
     = Inr (Message missing_ports_template [(''ports'', a), (''node'', b)])"
  by (simp add: py_mod_def scan_missing_ports)

lemma desired_loop_missing:
  "snd (desired_loop macs ls (tb, ne)) = ne @ filter (\<lambda>l. \<not> py_truthy (py_get macs l)) ls"
  by (induction ls arbitrary: tb ne) (auto simp: Let_def)

lemma desired_loop_found:
  "map_of (fst (desired_loop macs ls (tb, ne))) k
     = (if k \<in> set ls \<and> py_truthy (py_get macs k) then map_of macs k else map_of tb k)"
proof (induction ls arbitrary: tb ne)
  case Nil
  then show ?case by simp
next
  case (Cons l ls)
  have "map_of macs l = Some (py_get macs l)" if "py_truthy (py_get macs l)"
    using that by (cases "map_of macs l") (auto simp: py_get_def)
  then show ?case
    by (auto simp: Let_def Cons AList.update_conv')
qed

lemma desired_loop_distinct:
  "distinct (map fst tb) \<Longrightarrow> distinct (map fst (fst (desired_loop macs ls (tb, ne))))"
  by (induction ls arbitrary: tb ne) (auto simp: Let_def AList.distinct_update)

lemma lower_char_other:
  "c \<notin> set ''ABCDEFGHIJKLMNOPQRSTUVWXYZ'' \<Longrightarrow> lower_char c = c"
proof -
  assume "c \<notin> set ''ABCDEFGHIJKLMNOPQRSTUVWXYZ''"
  then have "map_of (zip ''ABCDEFGHIJKLMNOPQRSTUVWXYZ'' ''abcdefghijklmnopqrstuvwxyz'') c = None"
    by (subst map_of_zip_is_None) simp_all
  then show ?thesis by (simp only: lower_char_def option.case)
qed

lemma lower_char_digit: "is_digit_char c \<Longrightarrow> lower_char c = c"
  by (rule lower_char_other) (auto simp: is_digit_char_def)

lemma lower_digits: "list_all is_digit_char s \<Longrightarrow> lower s = s"
  by (induction s) (auto simp: lower_def lower_char_digit)

lemma split_on_no_sep: "c \<notin> set s \<Longrightarrow> split_on c s = [s]"
  by (induction s) auto

lemma numeric_not_all:
  assumes "list_all isdigit (split_on CHR '','' v)"
  shows "lower v \<noteq> ''all''"
proof
  assume a: "lower v = ''all''"
  have "lower_char CHR '','' = CHR '',''"
    by (rule lower_char_other) simp
  moreover have "lower_char CHR '','' \<in> set (lower v)" if "CHR '','' \<in> set v"
    using that by (simp add: lower_def)
  ultimately have "CHR '','' \<notin> set v"
    using a by auto
  then have "isdigit v" using assms by (simp add: split_on_no_sep)
  then have "lower v = v" by (simp add: isdigit_def lower_digits)
  with a \<open>isdigit v\<close> show False by (simp add: isdigit_def is_digit_char_def)
qed

lemma truthy_bound: "py_truthy (py_get macs l) \<Longrightarrow> map_of macs l = Some (py_get macs l)"
  by (cases "map_of macs l") (auto simp: py_get_def)

text \<open>
  C2, as stated, fails: the label of the wanted port is in the mapping, bound to an empty
  string, and the policy raises, since it tests the value for truth.
\<close>

theorem desired_ports_empty_mac_counterexample:
  "''Port 1'' \<in> fst ` set [(''Port 1'', PStr [])]
   \<and> get_macs_for_desired_ports one_port_node [(''Port 1'', PStr [])]
       = Inl (failure (Message missing_ports_template
                [(''ports'', PList [PStr ''Port 1'']), (''node'', PStr ''n1'')]))"
  by (simp add: get_macs_for_desired_ports_def one_port_node_def example_node_def
      desired_macs_def desired_macs_list_def lower_def lower_char_def py_get_def
      mod_missing_ports)

text \<open>
  C2, amended: for every comma-separated numeric selection expression and every
  discovered MAC mapping: if every wanted port number \<open>n\<close> has its label \<open>Port n\<close> bound
  in the mapping to a value that is true (a MAC that is not empty), the policy returns
  exactly the bindings of the wanted labels and no others; if at least one is absent or
  bound to a value that is not true, it raises HardwareInspectionFailure, the error lists
  every such label, and no partial result is returned.
\<close>

theorem desired_ports_exact:
  assumes "list_all isdigit (split_on CHR '','' (desired_macs nd))"
  shows "if absent_ports nd macs = []
         then \<exists>r. get_macs_for_desired_ports nd macs = Inr r
                \<and> map_of r = map_of macs |` set (desired_macs_list nd)
                \<and> fst ` set r = set (desired_macs_list nd)
                \<and> distinct (map fst r)
         else get_macs_for_desired_ports nd macs
                = Inl (failure (Message missing_ports_template
                         [(''ports'', PList (map PStr (absent_ports nd macs))),
                          (''node'', PStr (uuid nd))]))"
proof -
  obtain tb ne where l: "desired_loop macs (desired_macs_list nd) ([], []) = (tb, ne)"
    by (cases "desired_loop macs (desired_macs_list nd) ([], [])")
  have ne: "ne = absent_ports nd macs"
    using desired_loop_missing [of macs "desired_macs_list nd" "[]" "[]"] l
    by (simp add: absent_ports_def)
  have tb: "map_of tb k = (if k \<in> set (desired_macs_list nd) \<and> py_truthy (py_get macs k)
                           then map_of macs k else None)" for k
    using desired_loop_found [of macs "desired_macs_list nd" "[]" "[]" k] l by simp
  have d: "distinct (map fst tb)"
    using desired_loop_distinct [of "[]" macs "desired_macs_list nd" "[]"] l by simp
  have n: "lower (desired_macs nd) \<noteq> ''all''"
    using assms by (rule numeric_not_all)
  show ?thesis
  proof (cases "absent_ports nd macs = []")
    case True
    then have all: "\<forall>k \<in> set (desired_macs_list nd). py_truthy (py_get macs k)"
      by (auto simp: absent_ports_def filter_empty_conv)
    have m: "map_of tb = map_of macs |` set (desired_macs_list nd)"
      by (rule ext) (simp add: tb all restrict_map_def)
    have "fst ` set tb = dom (map_of tb)"
      by (simp add: dom_map_of_conv_image_fst)
    also have "\<dots> = set (desired_macs_list nd)"
      using all by (auto simp: tb truthy_bound dom_def)
    finally have "fst ` set tb = set (desired_macs_list nd)" .
    with True m d n l ne show ?thesis
      by (simp add: get_macs_for_desired_ports_def)
  next
    case False
    with n l ne show ?thesis
      by (simp add: get_macs_for_desired_ports_def mod_missing_ports)
  qed
qed

text \<open>C2, amended, at the expression \<open>2\<close> on two discovered ports, and at \<open>1,3,4\<close>.\<close>

theorem desired_ports_exact_witness:
  "(\<exists>r. get_macs_for_desired_ports
           (example_node\<lparr>driver_info := [(''inspect_ports'', ''2'')]\<rparr>) two_macs = Inr r
        \<and> map_of r = map_of two_macs |` set [''Port 2'']
        \<and> fst ` set r = set [''Port 2'']
        \<and> distinct (map fst r))
   \<and> get_macs_for_desired_ports
        (example_node\<lparr>driver_info := [(''inspect_ports'', ''1,3,4'')]\<rparr>) two_macs
       = Inl (failure (Message missing_ports_template
                [(''ports'', PList (map PStr [''Port 3'', ''Port 4''])),
                 (''node'', PStr ''n1'')]))"
proof -
  let ?a = "example_node\<lparr>driver_info := [(''inspect_ports'', ''2'')]\<rparr>"
  let ?b = "example_node\<lparr>driver_info := [(''inspect_ports'', ''1,3,4'')]\<rparr>"
  have ha: "list_all isdigit (split_on CHR '','' (desired_macs ?a))"
    and hb: "list_all isdigit (split_on CHR '','' (desired_macs ?b))"
    by (simp_all add: desired_macs_def isdigit_def is_digit_char_def)
  have la: "desired_macs_list ?a = [''Port 2'']"
    by (simp add: desired_macs_list_def desired_macs_def)
  have aa: "absent_ports ?a two_macs = []"
    by (simp add: absent_ports_def la two_macs_def py_get_def)
  have ab: "absent_ports ?b two_macs = [''Port 3'', ''Port 4'']"
    by (simp add: absent_ports_def desired_macs_list_def desired_macs_def two_macs_def
        py_get_def)
  have u: "uuid ?b = ''n1''"
    by (simp add: example_node_def)
  from desired_ports_exact [OF ha, of two_macs] desired_ports_exact [OF hb, of two_macs]
  show ?thesis
    by (simp only: aa ab la u if_True if_False list.distinct simp_thms)
qed

subsection \<open>Port registration\<close>



lemma create_ports_loop_node: "task_node (snd (create_ports_loop c macs s)) = task_node s"
proof (induction macs arbitrary: s)
  case Nil
  show ?case by simp
next
  case (Cons mac rest)
  obtain r w' where cp: "create_port c (port_dict (task_node s) mac) (world s) = (r, w')"
    by (cases "create_port c (port_dict (task_node s) mac) (world s)")
  show ?case
    by (simp add: cp Let_def Cons)
qed





text \<open>The same run, evaluated: both ports are tried, the first is created, and the
  duplicate is logged as a warning.\<close>

lemma create_ports_example:
  "create_ports_if_not_exist (sim (Inr PNone) (Inr PNone)) two_macs
     (start example_node second_port_exists)
   = (Inr (),
      \<lparr>world = second_port_exists
          \<lparr>sim_ports := [PStr ''bb:bb:bb:bb:bb:bb'', PStr ''aa:aa:aa:aa:aa:aa'']\<rparr>,
       task_node = example_node,
       calls = [CreatePort (port_dict example_node (PStr ''aa:aa:aa:aa:aa:aa'')) None,
                CreatePort (port_dict example_node (PStr ''bb:bb:bb:bb:bb:bb''))
                  (Some MACAlreadyExists)],
       logs = [port_log example_node (PStr ''aa:aa:aa:aa:aa:aa'') None,
               port_log example_node (PStr ''bb:bb:bb:bb:bb:bb'') (Some MACAlreadyExists)]\<rparr>)"
  by (simp add: create_ports_if_not_exist_def two_macs_def start_def sim_def
      second_port_exists_def powered_off_def port_dict_def py_get_def Let_def)

text \<open>With the database down, the first call raises, and its error is the result: the
  second MAC is not tried.\<close>

lemma create_ports_database_down:
  "create_ports_if_not_exist database_down two_macs (start example_node powered_off)
   = (Inl (OtherError ''database is down''),
      \<lparr>world = powered_off,
       task_node = example_node,
       calls = [CreatePort (port_dict example_node (PStr ''aa:aa:aa:aa:aa:aa''))
                  (Some (OtherError ''database is down''))],
       logs = []\<rparr>)"
  by (simp add: create_ports_if_not_exist_def two_macs_def start_def database_down_def
      Let_def outcome_def)

subsection \<open>Splitting and joining\<close>

lemma split_on_nonempty: "split_on c s \<noteq> []"
  by (induction s) (auto split: list.splits)

lemma split_on_append_sep: "c \<notin> set t \<Longrightarrow> split_on c (t @ c # s) = t # split_on c s"
  by (induction t) (auto split: list.splits)

lemma split_on_join:
  "ts \<noteq> [] \<Longrightarrow> \<forall>t \<in> set ts. c \<notin> set t \<Longrightarrow> split_on c (join [c] ts) = ts"
proof (induction "[c]" ts rule: join.induct)
  case 1
  then show ?case by simp
next
  case (2 x)
  then show ?case by (simp add: split_on_no_sep)
next
  case (3 x y ys)
  then show ?case by (simp add: split_on_append_sep)
qed

lemma split_on_tokens: "t \<in> set (split_on c s) \<Longrightarrow> c \<notin> set t \<and> set t \<subseteq> set s"
proof (induction s arbitrary: t)
  case Nil
  then show ?case by simp
next
  case (Cons x xs)
  obtain a rest where ar: "split_on c xs = a # rest"
    using split_on_nonempty [of c xs] by (cases "split_on c xs") auto
  have a: "c \<notin> set a \<and> set a \<subseteq> set xs"
    using Cons.IH [of a] ar by simp
  have rest: "c \<notin> set u \<and> set u \<subseteq> set xs" if "u \<in> set rest" for u
    using Cons.IH [of u] ar that by simp
  show ?case
  proof (cases "x = c")
    case True
    with Cons.prems ar have "t = [] \<or> t = a \<or> t \<in> set rest" by auto
    with a rest show ?thesis by auto
  next
    case False
    with Cons.prems ar have "t = x # a \<or> t \<in> set rest" by auto
    with a rest False show ?thesis by auto
  qed
qed

lemma takeWhile_sep: "c \<notin> set k \<Longrightarrow> takeWhile (\<lambda>x. x \<noteq> c) (k @ c # v) = k"
  by (induction k) auto

lemma dropWhile_sep: "c \<notin> set k \<Longrightarrow> dropWhile (\<lambda>x. x \<noteq> c) (k @ c # v) = c # v"
  by (induction k) auto

lemma split_first_token: "c \<notin> set k \<Longrightarrow> split_first c (k @ c # v) = [k, v]"
  by (simp add: split_first_def takeWhile_sep dropWhile_sep)

lemma split_first_pair:
  assumes "split_first c t = [k, v]"
  shows "c \<notin> set k \<and> set k \<subseteq> set t \<and> set v \<subseteq> set t"
proof -
  from assms have k: "k = takeWhile (\<lambda>x. x \<noteq> c) t" and v: "v = tl (dropWhile (\<lambda>x. x \<noteq> c) t)"
    by (auto simp: split_first_def split: if_splits)
  have "c \<notin> set k" using k by (auto dest: set_takeWhileD)
  moreover have "set k \<subseteq> set t" using k by (auto dest: set_takeWhileD)
  moreover have "set v \<subseteq> set t"
    unfolding v by (metis list.set_sel(2) set_dropWhileD subsetI tl_Nil)
  ultimately show ?thesis by simp
qed

subsection \<open>Dictionaries\<close>

lemma update_new: "k \<notin> fst ` set al \<Longrightarrow> AList.update k v al = al @ [(k, v)]"
  by (induction al) auto

lemma fold_update_distinct:
  "distinct (map fst (acc @ d))
     \<Longrightarrow> fold (\<lambda>kv a. AList.update (fst kv) (g kv) a) d acc = acc @ map (\<lambda>kv. (fst kv, g kv)) d"
proof (induction d arbitrary: acc)
  case Nil
  then show ?case by simp
next
  case (Cons kv d)
  then have "fst kv \<notin> fst ` set acc" by auto
  then have "AList.update (fst kv) (g kv) acc = acc @ [(fst kv, g kv)]" by (rule update_new)
  moreover have "distinct (map fst ((acc @ [(fst kv, g kv)]) @ d))"
    using Cons.prems by auto
  ultimately show ?case using Cons.IH [of "acc @ [(fst kv, g kv)]"] by simp
qed

lemma py_dict_pairs:
  "py_dict (map (\<lambda>kv. [fst kv, f kv]) d) acc
     = Inr (fold (\<lambda>kv a. AList.update (fst kv) (PStr (f kv)) a) d acc)"
  by (induction d arbitrary: acc) auto

lemma dict_update_distinct: "distinct (map fst d) \<Longrightarrow> distinct (map fst (dict_update d new))"
  unfolding dict_update_def
  by (induction new arbitrary: d) (auto simp: AList.distinct_update)

lemma dict_update_set: "set (dict_update d new) \<subseteq> set d \<union> set new"
  unfolding dict_update_def
proof (induction new arbitrary: d)
  case Nil
  then show ?case by simp
next
  case (Cons kv new)
  have "set (AList.update (fst kv) (snd kv) d) \<subseteq> insert kv (set d)"
    by (induction d) auto
  with Cons [of "AList.update (fst kv) (snd kv) d"] show ?case by auto
qed

lemma dict_update_map_of:
  "distinct (map fst new)
     \<Longrightarrow> map_of (dict_update d new) k
           = (case map_of new k of None \<Rightarrow> map_of d k | Some v \<Rightarrow> Some v)"
  unfolding dict_update_def
proof (induction new arbitrary: d)
  case Nil
  then show ?case by simp
next
  case (Cons kv new)
  then have "map_of new (fst kv) = None"
    by (simp add: map_of_eq_None_iff)
  with Cons show ?case
    by (cases kv) (auto simp: AList.update_conv' split: option.splits)
qed

lemma dict_update_Nil_iff: "dict_update d new = [] \<longleftrightarrow> d = [] \<and> new = []"
  unfolding dict_update_def
  by (induction new arbitrary: d) auto

lemma dict_update_triv:
  "\<forall>kv \<in> set new. map_of d (fst kv) = Some (snd kv) \<Longrightarrow> dict_update d new = d"
  unfolding dict_update_def
  by (induction new) (auto simp: AList.update_triv)

lemma update_set_subset: "set (AList.update k v al) \<subseteq> insert (k, v) (set al)"
  by (induction al) auto

lemma written_update:
  "written (AList.update k v al) = AList.update k (PStr (py_str v)) (written al)"
  by (induction al) (auto simp: written_def)

lemma written_Nil: "written [] = []"
  by (simp add: written_def)

lemma written_Cons: "written (kv # d) = (fst kv, PStr (py_str (snd kv))) # written d"
  by (simp add: written_def)

lemma written_dict_update: "written (dict_update d new) = dict_update (written d) (written new)"
  unfolding dict_update_def
  by (induction new arbitrary: d) (simp_all add: written_update written_Nil written_Cons)

lemma written_idem: "written (written d) = written d"
  by (simp add: written_def)

lemma map_of_written: "map_of (written d) k = map_option (\<lambda>v. PStr (py_str v)) (map_of d k)"
  by (induction d) (auto simp: written_def)

lemma map_fst_written: "map fst (written d) = map fst d"
  by (simp add: written_def)

lemma serialize_written: "serialize (written d) = serialize d"
  by (simp add: serialize_def written_def comp_def)

subsection \<open>Reading back what was written\<close>

lemma set_join: "x \<in> set xs \<Longrightarrow> set x \<subseteq> set (join sep xs)"
  by (induction sep xs rule: join.induct) auto

lemma serialize_Nil_iff: "serialize d = [] \<longleftrightarrow> d = []"
proof
  assume e: "serialize d = []"
  show "d = []"
  proof (rule ccontr)
    assume "d \<noteq> []"
    then obtain kv where "kv \<in> set d" by (cases d) auto
    then have "set (fst kv @ '':'' @ py_str (snd kv)) \<subseteq> set (serialize d)"
      unfolding serialize_def by (intro set_join) simp
    with e show False by simp
  qed
qed (simp add: serialize_def)

lemma capability_map_serialize:
  assumes "distinct (map fst d)" and "\<forall>kv \<in> set d. plain_item kv"
  shows "capability_map (serialize d) = Inr (written d)"
proof (cases "d = []")
  case True
  then show ?thesis by (simp add: capability_map_def serialize_def written_def)
next
  case False
  let ?tok = "\<lambda>kv. fst kv @ '':'' @ py_str (snd kv)"
  have "\<forall>t \<in> set (map ?tok d). CHR '','' \<notin> set t"
    using assms(2) by (auto simp: plain_item_def)
  with False have 1: "split_on CHR '','' (join '','' (map ?tok d)) = map ?tok d"
    by (intro split_on_join) simp_all
  have 2: "map (split_first CHR '':'') (map ?tok d)
                 = map (\<lambda>kv. [fst kv, py_str (snd kv)]) d"
    using assms(2) by (simp add: plain_item_def split_first_token)
  have 3: "fold (\<lambda>kv a. AList.update (fst kv) (PStr (py_str (snd kv))) a) d []
                 = written d"
    using fold_update_distinct [of "[]" d "\<lambda>kv. PStr (py_str (snd kv))"] assms(1)
    by (simp add: written_def)
  have "parse_capabilities (serialize d) = Inr (written d)"
    unfolding parse_capabilities_def serialize_def
    by (simp only: 1 2 py_dict_pairs 3)
  with False show ?thesis
    by (simp add: capability_map_def serialize_Nil_iff)
qed

text \<open>What was parsed has distinct keys, plain items, and strings for values.\<close>

lemma py_dict_parsed:
  assumes "py_dict xs acc = Inr p"
    and "\<forall>x \<in> set xs. \<forall>k v. x = [k, v] \<longrightarrow> parsed_item (k, PStr v)"
    and "\<forall>kv \<in> set acc. parsed_item kv" and "distinct (map fst acc)"
  shows "(\<forall>kv \<in> set p. parsed_item kv) \<and> distinct (map fst p)"
  using assms
proof (induction xs arbitrary: acc)
  case Nil
  then show ?case by simp
next
  case (Cons x xs)
  from Cons.prems(1) obtain k v where x: "x = [k, v]"
    by (cases x; cases "tl x"; cases "tl (tl x)") auto
  with Cons.prems(1) have r: "py_dict xs (AList.update k (PStr v) acc) = Inr p" by simp
  have "parsed_item (k, PStr v)" using Cons.prems(2) x by simp
  then have "\<forall>kv \<in> set (AList.update k (PStr v) acc). parsed_item kv"
    using Cons.prems(3) update_set_subset [of k "PStr v" acc] by auto
  moreover have "distinct (map fst (AList.update k (PStr v) acc))"
    using Cons.prems(4) by (rule AList.distinct_update)
  ultimately show ?case
    using Cons.IH [OF r] Cons.prems(2) by simp
qed

lemma parse_capabilities_parsed:
  assumes "parse_capabilities s = Inr p"
  shows "(\<forall>kv \<in> set p. parsed_item kv) \<and> distinct (map fst p)"
proof (rule py_dict_parsed [where acc = "[]"])
  show "py_dict (map (split_first CHR '':'') (split_on CHR '','' s)) [] = Inr p"
    using assms by (simp add: parse_capabilities_def)
  show "\<forall>x \<in> set (map (split_first CHR '':'') (split_on CHR '','' s)).
          \<forall>k v. x = [k, v] \<longrightarrow> parsed_item (k, PStr v)"
  proof (intro ballI allI impI)
    fix x k v
    assume "x \<in> set (map (split_first CHR '':'') (split_on CHR '','' s))" and "x = [k, v]"
    then obtain t where t: "t \<in> set (split_on CHR '','' s)" "split_first CHR '':'' t = [k, v]"
      by auto
    from t(1) have "CHR '','' \<notin> set t" by (simp add: split_on_tokens)
    with split_first_pair [OF t(2)] show "parsed_item (k, PStr v)"
      by (auto simp: parsed_item_def plain_item_def)
  qed
qed simp_all

lemma node_cap_dict_parsed:
  assumes "node_cap_dict nd = Inr p"
  shows "(\<forall>kv \<in> set p. parsed_item kv) \<and> distinct (map fst p)"
proof (cases "py_truthy (py_get (properties nd) ''capabilities'')")
  case False
  with assms show ?thesis by (simp add: node_cap_dict_def)
next
  case True
  with assms obtain s where "py_get (properties nd) ''capabilities'' = PStr s"
    by (cases "py_get (properties nd) ''capabilities''") (auto simp: node_cap_dict_def)
  with True assms have "parse_capabilities s = Inr p"
    by (cases "parse_capabilities s")
      (auto simp: node_cap_dict_def py_mod_def scan_invalid_capabilities split: if_splits)
  then show ?thesis by (rule parse_capabilities_parsed)
qed

lemma written_parsed: "\<forall>kv \<in> set p. parsed_item kv \<Longrightarrow> written p = p"
  unfolding written_def by (intro map_idI) (auto simp: parsed_item_def)

subsection \<open>The Capability Merger, amended\<close>

text \<open>
  C3, as stated, fails: the node has \<open>BootMode:x\<close>, the discovered value of \<open>BootMode\<close>
  has a comma in it, and the output, read as a map, has another value for \<open>BootMode\<close>
  (and a key that nobody set).
\<close>

theorem merge_comma_counterexample:
  "node_cap_dict (store_capabilities example_node ''BootMode:x'') = Inr [(''BootMode'', PStr ''x'')]
   \<and> update_capabilities (store_capabilities example_node ''BootMode:x'')
        (PDict [(''BootMode'', PStr ''a,b:c'')]) = Inr ''BootMode:a,b:c''
   \<and> capability_map ''BootMode:a,b:c'' = Inr [(''BootMode'', PStr ''a''), (''b'', PStr ''c'')]"
  by (simp add: update_capabilities_def node_cap_dict_def store_capabilities_def
      example_node_def py_get_def parse_capabilities_def split_first_def capability_map_def
      dict_update_def serialize_def)

text \<open>
  C3, amended: for every parseable capability string of the node and every discovered
  mapping whose keys have neither comma nor colon and whose values have no comma in
  their text, the output of the Capability Merger, read as a map, maps every key of the
  node that is not discovered to its value, unchanged, and every discovered key to the
  text of the discovered value; it has no other keys.
\<close>

theorem merge_preserves_and_overwrites:
  assumes "node_cap_dict nd = Inr p" and "distinct (map fst new)"
    and "\<forall>kv \<in> set new. plain_item kv"
  shows "\<exists>out m. update_capabilities nd (PDict new) = Inr out
           \<and> capability_map out = Inr m
           \<and> (\<forall>k. k \<notin> fst ` set new \<longrightarrow> map_of m k = map_of p k)
           \<and> (\<forall>k v. map_of new k = Some v \<longrightarrow> map_of m k = Some (PStr (py_str v)))
           \<and> fst ` set m = fst ` set p \<union> fst ` set new"
proof -
  let ?d = "dict_update p new"
  from node_cap_dict_parsed [OF assms(1)]
  have pp: "\<forall>kv \<in> set p. parsed_item kv" and dp: "distinct (map fst p)" by simp_all
  have dd: "distinct (map fst ?d)" using dp by (rule dict_update_distinct)
  have pd: "\<forall>kv \<in> set ?d. plain_item kv"
    using dict_update_set [of p new] pp assms(3) by (auto simp: parsed_item_def)
  have out: "update_capabilities nd (PDict new) = Inr (serialize ?d)"
    using assms(1) by (simp add: update_capabilities_def)
  have m: "capability_map (serialize ?d) = Inr (written ?d)"
    using dd pd by (rule capability_map_serialize)
  have mo: "map_of (written ?d) k
      = (case map_of new k of None \<Rightarrow> map_of (written p) k
         | Some v \<Rightarrow> Some (PStr (py_str v)))" for k
    by (simp add: map_of_written dict_update_map_of [OF assms(2)] split: option.splits)
  have wp: "written p = p" using pp by (rule written_parsed)
  have "map_of (written ?d) k = map_of p k" if "k \<notin> fst ` set new" for k
    using that by (simp add: mo wp map_of_eq_None_iff [symmetric])
  moreover have "map_of (written ?d) k = Some (PStr (py_str v))" if "map_of new k = Some v" for k v
    using that by (simp add: mo)
  moreover have "fst ` set (written ?d) = fst ` set p \<union> fst ` set new"
  proof -
    have "fst ` set (written ?d) = dom (map_of ?d)"
      by (simp add: dom_map_of_conv_image_fst written_def image_image)
    also have "\<dots> = dom (map_of p) \<union> dom (map_of new)"
      by (auto simp: dom_def dict_update_map_of [OF assms(2)] split: option.splits)
    finally show ?thesis by (simp add: dom_map_of_conv_image_fst)
  qed
  ultimately show ?thesis using out m by blast
qed

text \<open>C3, amended, on the example of the specification: the node has
  \<open>boot_mode:bios,custom:foo\<close>, and \<open>BootMode\<close> is discovered.\<close>

theorem merge_preserves_and_overwrites_witness:
  "\<exists>out m. update_capabilities operator_node (PDict [(''BootMode'', PStr ''UEFI'')]) = Inr out
      \<and> capability_map out = Inr m
      \<and> map_of m ''custom'' = Some (PStr ''foo'')
      \<and> map_of m ''boot_mode'' = Some (PStr ''bios'')
      \<and> map_of m ''BootMode'' = Some (PStr ''UEFI'')"
proof -
  let ?p = "[(''boot_mode'', PStr ''bios''), (''custom'', PStr ''foo'')]"
  let ?new = "[(''BootMode'', PStr ''UEFI'')]"
  have h1: "node_cap_dict operator_node = Inr ?p"
    by (simp add: node_cap_dict_def operator_node_def example_node_def py_get_def
        parse_capabilities_def split_first_def)
  have h2: "distinct (map fst ?new)" by simp
  have h3: "\<forall>kv \<in> set ?new. plain_item kv" by (simp add: plain_item_def)
  from merge_preserves_and_overwrites [OF h1 h2 h3]
  obtain out m where o: "update_capabilities operator_node (PDict ?new) = Inr out"
    and m: "capability_map out = Inr m"
    and keep: "\<forall>k. k \<notin> fst ` set ?new \<longrightarrow> map_of m k = map_of ?p k"
    and over: "\<forall>k v. map_of ?new k = Some v \<longrightarrow> map_of m k = Some (PStr (py_str v))"
    by blast
  from keep have "map_of m ''custom'' = Some (PStr ''foo'')"
    and "map_of m ''boot_mode'' = Some (PStr ''bios'')" by simp_all
  moreover from over have "map_of m ''BootMode'' = Some (PStr ''UEFI'')" by simp
  ultimately show ?thesis using o m by blast
qed

text \<open>
  C6, as stated, fails: a discovered value with a comma is written as it is, and the
  string that results cannot be read again, so the second merge raises.
\<close>

theorem merge_twice_counterexample:
  "update_capabilities example_node (PDict [(''server_model'', PStr ''a,b'')])
     = Inr ''server_model:a,b''
   \<and> update_capabilities (store_capabilities example_node ''server_model:a,b'')
        (PDict [(''server_model'', PStr ''a,b'')]) = Inl ValueError"
  by (simp add: update_capabilities_def node_cap_dict_def store_capabilities_def
      example_node_def py_get_def parse_capabilities_def split_first_def
      dict_update_def serialize_def py_mod_def scan_invalid_capabilities)

text \<open>
  C6, amended: the Capability Merger is idempotent on discovered mappings whose keys
  have neither comma nor colon and whose values have no comma in their text. When the
  merge of such a mapping into the node gives a string, and that string is stored as the
  capabilities of the node, the merge of the same mapping gives the same string again.
\<close>

theorem merge_idempotent:
  assumes "distinct (map fst new)" and "\<forall>kv \<in> set new. plain_item kv"
    and "update_capabilities nd (PDict new) = Inr out"
  shows "update_capabilities (store_capabilities nd out) (PDict new) = Inr out"
proof -
  from assms(3) obtain p where p: "node_cap_dict nd = Inr p"
    and out: "out = serialize (dict_update p new)"
    by (cases "node_cap_dict nd") (auto simp: update_capabilities_def)
  let ?d = "dict_update p new"
  from node_cap_dict_parsed [OF p]
  have pp: "\<forall>kv \<in> set p. parsed_item kv" and dp: "distinct (map fst p)" by simp_all
  have dd: "distinct (map fst ?d)" using dp by (rule dict_update_distinct)
  have pd: "\<forall>kv \<in> set ?d. plain_item kv"
    using dict_update_set [of p new] pp assms(2) by (auto simp: parsed_item_def)
  have stored: "py_get (properties (store_capabilities nd out)) ''capabilities'' = PStr out"
    by (simp add: store_capabilities_def py_get_def AList.update_conv')
  have again: "node_cap_dict (store_capabilities nd out) = Inr (written ?d)"
  proof (cases "out = []")
    case True
    then have "?d = []" using out by (simp add: serialize_Nil_iff)
    with True stored show ?thesis by (simp add: node_cap_dict_def written_def)
  next
    case False
    have "capability_map out = Inr (written ?d)"
      unfolding out using dd pd by (rule capability_map_serialize)
    with False show ?thesis
      by (simp add: node_cap_dict_def stored capability_map_def)
  qed
  have "map_of (written ?d) (fst kv) = Some (snd kv)" if "kv \<in> set (written new)" for kv
  proof -
    from that obtain k v where kv: "kv = (k, PStr (py_str v))" and "(k, v) \<in> set new"
      by (auto simp: written_def)
    then have "map_of new k = Some v" using assms(1) by simp
    then show ?thesis
      by (simp add: kv map_of_written dict_update_map_of [OF assms(1)])
  qed
  then have "dict_update (written ?d) (written new) = written ?d"
    by (intro dict_update_triv) simp
  then have "written (dict_update (written ?d) new) = written ?d"
    by (simp add: written_dict_update written_idem)
  then have "serialize (dict_update (written ?d) new) = serialize ?d"
    by (metis serialize_written)
  with again out show ?thesis
    by (simp add: update_capabilities_def)
qed

text \<open>C6, amended, on the same example: the second merge writes what the first
  wrote.\<close>

theorem merge_idempotent_witness:
  "update_capabilities operator_node (PDict [(''BootMode'', PStr ''UEFI'')])
     = Inr ''boot_mode:bios,custom:foo,BootMode:UEFI''
   \<and> update_capabilities
        (store_capabilities operator_node ''boot_mode:bios,custom:foo,BootMode:UEFI'')
        (PDict [(''BootMode'', PStr ''UEFI'')])
       = Inr ''boot_mode:bios,custom:foo,BootMode:UEFI''"
proof -
  let ?new = "[(''BootMode'', PStr ''UEFI'')]"
  have h1: "distinct (map fst ?new)" by simp
  have h2: "\<forall>kv \<in> set ?new. plain_item kv" by (simp add: plain_item_def)
  have h3: "update_capabilities operator_node (PDict ?new)
              = Inr ''boot_mode:bios,custom:foo,BootMode:UEFI''"
    by (simp add: update_capabilities_def node_cap_dict_def operator_node_def example_node_def
        py_get_def parse_capabilities_def split_first_def dict_update_def serialize_def)
  from h3 merge_idempotent [OF h1 h2 h3] show ?thesis by simp
qed

subsection \<open>The steps of the workflow\<close>





lemma power_action_node: "task_node (snd (power_action c target s)) = task_node s"
  by (cases "node_power_action c target (world s)") (simp add: power_action_def)


















subsection \<open>The order of saving and capability discovery\<close>




subsection \<open>Capability discovery in the workflow\<close>

text \<open>An \<open>IloError\<close> of the capability query is logged, and the step leaves the node
  as it is.\<close>

lemma capabilities_error_swallowed:
  "ilo_get_server_capabilities c (world s) = Inl (IloError t)
     \<Longrightarrow> capabilities_step c s
           = (Inr (),
              s\<lparr>calls := calls s @ [GetServerCapabilities],
                 logs := logs s @ [(DEBUG, no_capabilities_template,
                                    PStr (uuid (task_node s)))]\<rparr>)"
  by (simp add: capabilities_step_def bind_def get_capabilities_def return_def)

lemma capabilities_error_run:
  "fst (inspect_hardware (sim (Inr good_result) (Inl (IloError ''not supported'')))
          (start second_port_node powered_off)) = Inr MANAGEABLE
   \<and> sim_saved (world (snd (inspect_hardware
          (sim (Inr good_result) (Inl (IloError ''not supported'')))
          (start second_port_node powered_off))))
       = [second_port_node\<lparr>properties := essential_values\<rparr>]"
  by code_simp

text \<open>
  C4: a capabilities result that is not a mapping should end the workflow. The check is
  in \<open>_update_capabilities\<close>, which raises on the string \<open>garbage\<close> when it is given it;
  in the workflow \<open>_create_supported_capabilities_dict\<close> comes first and makes a
  dictionary of whatever it is given, here the empty one, so the check never sees the
  result of the controller, and the run goes on to \<open>MANAGEABLE\<close>.
\<close>

theorem capabilities_not_a_mapping_proceeds:
  "\<not> isinstance_dict (PStr ''garbage'')
   \<and> update_capabilities second_port_node (PStr ''garbage'')
       = Inl (failure (Message capabilities_format_template
                [(''node'', PStr ''n1''), (''capabilities'', PStr ''garbage'')]))
   \<and> create_supported_capabilities_dict (PStr ''garbage'') = Inr []
   \<and> fst (inspect_hardware (sim (Inr good_result) (Inr (PStr ''garbage'')))
            (start second_port_node powered_off)) = Inr MANAGEABLE"
  by code_simp

end
